theory Spec2Isabelle
  imports Complex_Main
begin

section \<open>TinyGraph (sketch.js): the scene, the camera, the physics and the history\<close>

text \<open>
  The sketch keeps its scene in global variables and mutates node objects through
  references. The embedding passes the globals as one record and keeps the node objects
  in an explicit store from references to node values, so that two references to the
  same object see the same fields. JavaScript numbers are read as real numbers: rounding,
  infinities and NaN are outside the model. Calls that only draw, or only write to a
  widget (\<open>updateUIState\<close>, \<open>zoomSlider.value\<close>, \<open>show\<close>, \<open>highlight\<close>), have no
  counterpart.
\<close>

subsection \<open>Configuration\<close>

definition MAX_ZOOM :: real where
  "MAX_ZOOM = 5"

definition MIN_ZOOM :: real where
  "MIN_ZOOM = 0.2"

definition HISTORY_LIMIT :: nat where
  "HISTORY_LIMIT = 50"

text \<open>p5's \<open>constrain(n, low, high)\<close> is \<open>Math.max(Math.min(n, high), low)\<close>.\<close>

definition constrain :: "real \<Rightarrow> real \<Rightarrow> real \<Rightarrow> real" where
  "constrain n low high = max (min n high) low"

subsection \<open>Data\<close>

type_synonym ref = nat

text \<open>
  The fields of \<open>class Node\<close>. The source's \<open>x\<close>, \<open>y\<close>, \<open>r\<close> and \<open>id\<close> are
  \<open>node_x\<close>, \<open>node_y\<close>, \<open>node_r\<close> and \<open>node_id\<close> here.
\<close>

record node =
  node_x :: real
  node_y :: real
  vx :: real
  vy :: real
  node_r :: real
  node_id :: int
  label :: string
  tx :: real
  ty :: real
  speed :: real
  friction :: real
  labelVisible :: bool

text \<open>The object literal \<open>createSnapshot\<close> builds for each node.\<close>

record nodeData =
  d_x :: real
  d_y :: real
  d_id :: int
  d_label :: string
  d_speed :: real
  d_friction :: real
  d_tx :: real
  d_ty :: real

record snapshot =
  snap_nodes :: "nodeData list"
  snap_edges :: "(int \<times> int) list"

text \<open>
  The messages the sketch passes to \<open>createToast\<close>, one constructor per literal:
  "Please select a starting node first.", "Connected a -> b" (with the two ids),
  "These nodes are already connected.", "Graph saved as my-tiny-graph.json",
  "Nothing to undo.", "Nothing to redo.", "Error: Please select a valid .json file.",
  "Graph loaded successfully!", "Error: Could not parse the JSON file.".
\<close>

datatype toast_msg =
    SelectStartFirst
  | Connected int int
  | AlreadyConnected
  | GraphSaved
  | NothingToUndo
  | NothingToRedo
  | InvalidFileType
  | LoadedSuccessfully
  | CouldNotParse

record toast =
  message :: toast_msg
  createdAt :: real
  duration :: real

record bounds =
  wb_left :: real
  wb_right :: real
  wb_top :: real
  wb_bottom :: real

text \<open>
  The globals of the sketch. \<open>heap\<close> holds the node objects and \<open>nextRef\<close> is the
  first reference not yet handed out by \<open>new Node\<close>; \<open>millis\<close> is the reading of p5's
  clock during the current event. A stack is a list whose last element is the top, as
  \<open>push\<close> and \<open>pop\<close> work at the end of a JavaScript array.
\<close>

record state =
  heap :: "ref \<Rightarrow> node"
  nextRef :: ref
  millis :: real
  nodes :: "ref list"
  edges :: "(ref \<times> ref) list"
  toasts :: "toast list"
  undoStack :: "snapshot list"
  redoStack :: "snapshot list"
  worldBounds :: bounds
  selectedNode :: "ref option"
  hoveredNode :: "ref option"
  draggedNode :: "ref option"
  isConnectingNode :: bool
  isLabelsAlwaysVisible :: bool
  isAllowOverlap :: bool
  isBoundaryStatic :: bool
  isDrawPreview :: bool
  zoom :: real
  offsetX :: real
  offsetY :: real
  canvasX :: real
  canvasY :: real

datatype button = LEFT | RIGHT | CENTER

text \<open>What p5 provides to a pointer handler: the pointer, the canvas size, the button
  and whether the space key is held (\<open>keyIsDown(KEY_CODE_MAP['space'])\<close>).\<close>

record pointer =
  mouseX :: real
  mouseY :: real
  width :: real
  height :: real
  mouseButton :: button
  spaceDown :: bool

subsection \<open>Camera\<close>

definition screenToWorld :: "state \<Rightarrow> real \<Rightarrow> real \<Rightarrow> real \<times> real" where
  "screenToWorld s mx my =
     (let worldX = (mx - offsetX s) / zoom s;
          worldY = (my - offsetY s) / zoom s
      in (worldX, worldY))"

text \<open>The transform \<open>draw\<close> installs before drawing the world:
  \<open>translate(offsetX, offsetY); scale(zoom)\<close> sends a world point to this screen point.\<close>

definition worldToScreen :: "state \<Rightarrow> real \<Rightarrow> real \<Rightarrow> real \<times> real" where
  "worldToScreen s wx wy = (wx * zoom s + offsetX s, wy * zoom s + offsetY s)"

definition applyZoom :: "real \<Rightarrow> real \<Rightarrow> real \<Rightarrow> state \<Rightarrow> state" where
  "applyZoom delta pivotX pivotY s =
     (let newZoom = zoom s + delta;
          newZoom = constrain newZoom MIN_ZOOM MAX_ZOOM;
          world = screenToWorld s pivotX pivotY;
          s1 = s\<lparr>offsetX := pivotX - fst world * newZoom\<rparr>;
          s2 = s1\<lparr>offsetY := pivotY - snd world * newZoom\<rparr>
      in s2\<lparr>zoom := newZoom\<rparr>)"

definition getCanvasMousePos :: "pointer \<Rightarrow> state \<Rightarrow> state" where
  "getCanvasMousePos p s =
     (let world = screenToWorld s (mouseX p) (mouseY p)
      in s\<lparr>canvasX := fst world, canvasY := snd world\<rparr>)"

definition updateWorldBounds :: "pointer \<Rightarrow> state \<Rightarrow> state" where
  "updateWorldBounds p s =
     (if isBoundaryStatic s
      then s\<lparr>worldBounds := \<lparr>wb_left = 0, wb_right = width p, wb_top = 0, wb_bottom = height p\<rparr>\<rparr>
      else
        (let topLeft = screenToWorld s 0 0;
             bottomRight = screenToWorld s (width p) (height p)
         in s\<lparr>worldBounds := \<lparr>wb_left = fst topLeft, wb_right = fst bottomRight,
                                 wb_top = snd topLeft, wb_bottom = snd bottomRight\<rparr>\<rparr>))"

definition home :: "state \<Rightarrow> state" where
  "home s = s\<lparr>zoom := 1, offsetX := 0, offsetY := 0\<rparr>"

subsection \<open>Nodes and their physics\<close>

text \<open>Decimal digits of a number, as \<open>"node " + id\<close> prints an integer id.\<close>

fun digits :: "nat \<Rightarrow> string" where
  "digits n = (if n < 10 then [char_of (48 + n)] else digits (n div 10) @ [char_of (48 + n mod 10)])"

definition string_of_id :: "int \<Rightarrow> string" where
  "string_of_id i = (if i < 0 then CHR ''-'' # digits (nat (- i)) else digits (nat i))"

text \<open>The constructor. Its last argument is the global \<open>isLabelsAlwaysVisible\<close>, which
  the constructor reads.\<close>

definition Node :: "real \<Rightarrow> real \<Rightarrow> int \<Rightarrow> bool \<Rightarrow> node" where
  "Node px py i vis =
     \<lparr>node_x = px, node_y = py, vx = 0, vy = 0, node_r = 20, node_id = i,
      label = ''node '' @ string_of_id i, tx = px, ty = py, speed = 0.1, friction = 0.8,
      labelVisible = vis\<rparr>"

definition update :: "node \<Rightarrow> node" where
  "update n =
     (let dx = tx n - node_x n;
          dy = ty n - node_y n;
          n1 = n\<lparr>vx := vx n + dx * speed n\<rparr>;
          n2 = n1\<lparr>vy := vy n1 + dy * speed n1\<rparr>;
          n3 = n2\<lparr>vx := vx n2 * friction n2\<rparr>;
          n4 = n3\<lparr>vy := vy n3 * friction n3\<rparr>;
          n5 = n4\<lparr>node_x := node_x n4 + vx n4\<rparr>
      in n5\<lparr>node_y := node_y n5 + vy n5\<rparr>)"

definition moveTo :: "real \<Rightarrow> real \<Rightarrow> node \<Rightarrow> node" where
  "moveTo px py n = n\<lparr>tx := px, ty := py\<rparr>"

text \<open>The loop of \<open>applyRepulsion\<close> over \<open>others\<close>, with the running sums \<open>fx\<close>, \<open>fy\<close>.
  \<open>other === this\<close> compares references.\<close>

fun repulsionLoop :: "(ref \<Rightarrow> node) \<Rightarrow> ref \<Rightarrow> ref list \<Rightarrow> real \<times> real \<Rightarrow> real \<times> real" where
  "repulsionLoop h this [] (fx, fy) = (fx, fy)"
| "repulsionLoop h this (other # others) (fx, fy) =
     (if other = this then repulsionLoop h this others (fx, fy)
      else
        (let dx = node_x (h this) - node_x (h other);
             dy = node_y (h this) - node_y (h other);
             d = sqrt (dx * dx + dy * dy)
         in if d < node_r (h this) * 2 \<and> d > 0.1
            then
              (let overlap = node_r (h this) * 2 - d;
                   force = overlap * 0.5;
                   dx1 = dx / d;
                   dy1 = dy / d
               in repulsionLoop h this others (fx + dx1 * force, fy + dy1 * force))
            else repulsionLoop h this others (fx, fy)))"

definition applyRepulsion :: "ref list \<Rightarrow> ref \<Rightarrow> (ref \<Rightarrow> node) \<Rightarrow> ref \<Rightarrow> node" where
  "applyRepulsion others this h =
     (let f = repulsionLoop h this others (0, 0);
          n = h this;
          n1 = n\<lparr>vx := vx n + fst f\<rparr>;
          n2 = n1\<lparr>vy := vy n1 + snd f\<rparr>;
          n3 = n2\<lparr>vx := constrain (vx n2) (- 5) 5\<rparr>;
          n4 = n3\<lparr>vy := constrain (vy n3) (- 5) 5\<rparr>
      in h(this := n4))"

definition applyBoundary :: "bounds \<Rightarrow> node \<Rightarrow> node" where
  "applyBoundary wb n =
     (let push_strength = 0.1;
          n1 = (if node_x n - node_r n < wb_left wb
                then n\<lparr>vx := vx n + (wb_left wb - node_x n + node_r n) * push_strength\<rparr>
                else n);
          n2 = (if node_y n1 - node_r n1 < wb_top wb
                then n1\<lparr>vy := vy n1 + (wb_top wb - node_y n1 + node_r n1) * push_strength\<rparr>
                else n1);
          n3 = (if node_x n2 + node_r n2 > wb_right wb
                then n2\<lparr>vx := vx n2 - (node_x n2 + node_r n2 - wb_right wb) * push_strength\<rparr>
                else n2)
      in if node_y n3 + node_r n3 > wb_bottom wb
         then n3\<lparr>vy := vy n3 - (node_y n3 + node_r n3 - wb_bottom wb) * push_strength\<rparr>
         else n3)"

text \<open>The two loops of \<open>drawNodes\<close>: the first adds repulsion (unless overlap is allowed)
  and the boundary push to every node, the second runs \<open>update\<close> on every node.\<close>

fun forcesLoop :: "bool \<Rightarrow> bounds \<Rightarrow> ref list \<Rightarrow> ref list \<Rightarrow> (ref \<Rightarrow> node) \<Rightarrow> ref \<Rightarrow> node" where
  "forcesLoop ov wb all [] h = h"
| "forcesLoop ov wb all (a # rest) h =
     (let h1 = (if ov = False then applyRepulsion all a h else h);
          h2 = h1(a := applyBoundary wb (h1 a))
      in forcesLoop ov wb all rest h2)"

fun updateLoop :: "ref list \<Rightarrow> (ref \<Rightarrow> node) \<Rightarrow> ref \<Rightarrow> node" where
  "updateLoop [] h = h"
| "updateLoop (a # rest) h = updateLoop rest (h(a := update (h a)))"

definition drawNodes :: "state \<Rightarrow> state" where
  "drawNodes s =
     s\<lparr>heap := updateLoop (nodes s)
                 (forcesLoop (isAllowOverlap s) (worldBounds s) (nodes s) (nodes s) (heap s))\<rparr>"

subsection \<open>Notifications and history\<close>

text \<open>\<open>createToast(message, duration = 3000)\<close>; every call of the sketch uses the default.\<close>

definition createToast :: "toast_msg \<Rightarrow> state \<Rightarrow> state" where
  "createToast m s =
     s\<lparr>toasts := toasts s @ [\<lparr>message = m, createdAt = millis s, duration = 3000\<rparr>]\<rparr>"

definition createSnapshot :: "state \<Rightarrow> snapshot" where
  "createSnapshot s =
     (let snapshotNodes = map (\<lambda>a. let n = heap s a in
            \<lparr>d_x = node_x n, d_y = node_y n, d_id = node_id n, d_label = label n,
             d_speed = speed n, d_friction = friction n, d_tx = tx n, d_ty = ty n\<rparr>) (nodes s);
          snapshotEdges = map (\<lambda>(nodeA, nodeB). (node_id (heap s nodeA), node_id (heap s nodeB)))
            (edges s)
      in \<lparr>snap_nodes = snapshotNodes, snap_edges = snapshotEdges\<rparr>)"

definition saveState :: "state \<Rightarrow> state" where
  "saveState s =
     (let s1 = s\<lparr>redoStack := []\<rparr>;
          s2 = s1\<lparr>undoStack := undoStack s1 @ [createSnapshot s1]\<rparr>
      in if length (undoStack s2) > HISTORY_LIMIT then s2\<lparr>undoStack := tl (undoStack s2)\<rparr> else s2)"

text \<open>\<open>Object.assign(newNode, nData)\<close> for the eight fields a snapshot entry carries.\<close>

definition assignData :: "node \<Rightarrow> nodeData \<Rightarrow> node" where
  "assignData n nData =
     n\<lparr>node_x := d_x nData, node_y := d_y nData, node_id := d_id nData, label := d_label nData,
       speed := d_speed nData, friction := d_friction nData, tx := d_tx nData, ty := d_ty nData\<rparr>"

text \<open>\<open>snapshot.nodes.map(...)\<close>: one new object per entry, in order, each at the next
  free reference. The result is the new array, the next free reference and the store.\<close>

fun restoreNodes :: "bool \<Rightarrow> nodeData list \<Rightarrow> ref \<Rightarrow> (ref \<Rightarrow> node) \<Rightarrow> ref list \<times> ref \<times> (ref \<Rightarrow> node)" where
  "restoreNodes vis [] nxt h = ([], nxt, h)"
| "restoreNodes vis (nData # rest) nxt h =
     (let newNode = assignData (Node (d_x nData) (d_y nData) (d_id nData) vis) nData;
          res = restoreNodes vis rest (Suc nxt) (h(nxt := newNode))
      in (nxt # fst res, snd res))"

text \<open>\<open>nodes.find(n => n.id === idA)\<close>. The id looked for is \<open>None\<close> when it is a value
  no integer is strictly equal to (\<open>undefined\<close>, a string, a fraction).\<close>

definition findNode :: "(ref \<Rightarrow> node) \<Rightarrow> ref list \<Rightarrow> int option \<Rightarrow> ref option" where
  "findNode h ns idA = (case idA of None \<Rightarrow> None | Some i \<Rightarrow> find (\<lambda>a. node_id (h a) = i) ns)"

definition restoreEdges :: "(ref \<Rightarrow> node) \<Rightarrow> ref list \<Rightarrow> (int option \<times> int option) list \<Rightarrow> (ref \<times> ref) list" where
  "restoreEdges h ns es =
     List.map_filter (\<lambda>(idA, idB).
        case findNode h ns idA of
          None \<Rightarrow> None
        | Some nodeA \<Rightarrow> (case findNode h ns idB of None \<Rightarrow> None | Some nodeB \<Rightarrow> Some (nodeA, nodeB))) es"

definition clearTransient :: "state \<Rightarrow> state" where
  "clearTransient s =
     s\<lparr>selectedNode := None, draggedNode := None, hoveredNode := None, isConnectingNode := False\<rparr>"

definition restoreFromSnapshot :: "snapshot \<Rightarrow> state \<Rightarrow> state" where
  "restoreFromSnapshot snap s =
     (let s1 = clearTransient s;
          res = restoreNodes (isLabelsAlwaysVisible s1) (snap_nodes snap) (nextRef s1) (heap s1);
          s2 = s1\<lparr>heap := snd (snd res), nextRef := fst (snd res), nodes := fst res\<rparr>
      in s2\<lparr>edges := restoreEdges (heap s2) (nodes s2)
                         (map (\<lambda>(idA, idB). (Some idA, Some idB)) (snap_edges snap))\<rparr>)"

definition undo :: "state \<Rightarrow> state" where
  "undo s =
     (if length (undoStack s) \<le> 1 then createToast NothingToUndo s
      else
        (let currentState = last (undoStack s);
             s1 = s\<lparr>undoStack := butlast (undoStack s)\<rparr>;
             s2 = s1\<lparr>redoStack := redoStack s1 @ [currentState]\<rparr>;
             prevState = last (undoStack s2)
         in restoreFromSnapshot prevState s2))"

definition redo :: "state \<Rightarrow> state" where
  "redo s =
     (if length (redoStack s) = 0 then createToast NothingToRedo s
      else
        (let nextState = last (redoStack s);
             s1 = s\<lparr>redoStack := butlast (redoStack s)\<rparr>;
             s2 = s1\<lparr>undoStack := undoStack s1 @ [nextState]\<rparr>
         in restoreFromSnapshot nextState s2))"

subsection \<open>Connecting, deleting and creating nodes\<close>

definition attemptConnection :: "ref option \<Rightarrow> state \<Rightarrow> state" where
  "attemptConnection targetNode s =
     (case selectedNode s of
        None \<Rightarrow> s
      | Some sel \<Rightarrow>
         (case targetNode of
            None \<Rightarrow> s
          | Some tgt \<Rightarrow>
             if sel = tgt then s
             else
               (let exists = list_ex (\<lambda>(a, b). (a = sel \<and> b = tgt) \<or> (a = tgt \<and> b = sel)) (edges s);
                    s1 = (if \<not> exists
                          then
                            (let s2 = saveState (s\<lparr>edges := edges s @ [(sel, tgt)]\<rparr>)
                             in createToast (Connected (node_id (heap s2 sel)) (node_id (heap s2 tgt))) s2)
                          else createToast AlreadyConnected s);
                    s3 = s1\<lparr>isConnectingNode := False\<rparr>
                in s3\<lparr>selectedNode := None\<rparr>)))"

text \<open>The loop of \<open>updateNodesID\<close>, from index \<open>i\<close> on.\<close>

fun updateNodesIDLoop :: "nat \<Rightarrow> ref list \<Rightarrow> (ref \<Rightarrow> node) \<Rightarrow> ref \<Rightarrow> node" where
  "updateNodesIDLoop i [] h = h"
| "updateNodesIDLoop i (a # rest) h = updateNodesIDLoop (Suc i) rest (h(a := (h a)\<lparr>node_id := int i + 1\<rparr>))"

definition updateNodesID :: "state \<Rightarrow> state" where
  "updateNodesID s = s\<lparr>heap := updateNodesIDLoop 0 (nodes s) (heap s)\<rparr>"

text \<open>\<open>Array.prototype.indexOf\<close> on a reference that may be \<open>null\<close>: the position of its
  first occurrence, or \<open>-1\<close>.\<close>

fun indexFrom :: "int \<Rightarrow> ref list \<Rightarrow> ref \<Rightarrow> int" where
  "indexFrom i [] a = - 1"
| "indexFrom i (b # rest) a = (if b = a then i else indexFrom (i + 1) rest a)"

definition indexOf :: "ref list \<Rightarrow> ref option \<Rightarrow> int" where
  "indexOf xs v = (case v of None \<Rightarrow> - 1 | Some a \<Rightarrow> indexFrom 0 xs a)"

text \<open>\<open>xs.splice(start, 1)\<close>: a negative \<open>start\<close> counts from the end of the array and
  is clamped at its beginning, a \<open>start\<close> past the end removes nothing.\<close>

definition splice1 :: "int \<Rightarrow> 'a list \<Rightarrow> 'a list" where
  "splice1 start xs =
     (let len = int (length xs);
          actualStart = (if start < 0 then max (len + start) 0 else min start len)
      in take (nat actualStart) xs @ drop (nat actualStart + 1) xs)"

definition mousePressed :: "pointer \<Rightarrow> state \<Rightarrow> state" where
  "mousePressed p s =
     (if mouseX p < 0 \<or> mouseX p > width p \<or> mouseY p < 0 \<or> mouseY p > height p then s
      else
        (let indexH = indexOf (nodes s) (hoveredNode s);
             indexS = indexOf (nodes s) (selectedNode s)
         in if mouseButton p = RIGHT
            then
              (case hoveredNode s of
                 None \<Rightarrow> s
               | Some hovered \<Rightarrow>
                  (let s1 = s\<lparr>nodes := splice1 indexH (nodes s)\<rparr>;
                       s2 = s1\<lparr>edges := filter (\<lambda>edge. fst edge \<noteq> hovered \<and> snd edge \<noteq> hovered) (edges s1)\<rparr>;
                       s3 = (if indexS = indexH then s2\<lparr>selectedNode := None\<rparr> else s2)
                   in saveState (updateNodesID s3)))
            else
              (let s1 =
                 (if hoveredNode s = None \<and> \<not> spaceDown p
                  then
                    (let a = nextRef s;
                         newNode = Node (canvasX s) (canvasY s) (int (length (nodes s)) + 1)
                                     (isLabelsAlwaysVisible s);
                         s2 = s\<lparr>heap := (heap s)(a := newNode), nextRef := Suc a\<rparr>;
                         s3 = s2\<lparr>nodes := nodes s2 @ [a]\<rparr>;
                         s4 = s3\<lparr>selectedNode := None\<rparr>;
                         s5 = s4\<lparr>isConnectingNode := False\<rparr>
                     in saveState s5)
                  else if \<not> isConnectingNode s then s\<lparr>selectedNode := hoveredNode s\<rparr>
                  else attemptConnection (hoveredNode s) s)
               in if selectedNode s1 = hoveredNode s1 \<and> hoveredNode s1 \<noteq> None \<and> \<not> isConnectingNode s1
                  then s1\<lparr>draggedNode := selectedNode s1\<rparr>
                  else s1)))"

definition mouseDragged :: "pointer \<Rightarrow> real \<Rightarrow> real \<Rightarrow> state \<Rightarrow> state" where
  "mouseDragged p pmouseX pmouseY s =
     (if mouseX p < 0 \<or> mouseX p > width p \<or> mouseY p < 0 \<or> mouseY p > height p then s
      else
        (case draggedNode s of
           Some a \<Rightarrow> s\<lparr>heap := (heap s)(a := (heap s a)\<lparr>tx := canvasX s, ty := canvasY s\<rparr>)\<rparr>
         | None \<Rightarrow>
            if spaceDown p
            then s\<lparr>offsetX := offsetX s + (mouseX p - pmouseX), offsetY := offsetY s + (mouseY p - pmouseY)\<rparr>
            else s))"

definition mouseReleased :: "state \<Rightarrow> state" where
  "mouseReleased s = (case draggedNode s of None \<Rightarrow> s | Some a \<Rightarrow> saveState (s\<lparr>draggedNode := None\<rparr>))"

text \<open>The spec's \<open>connect(a, b)\<close>: \<open>a\<close> is the selected node when the attempt on \<open>b\<close> is made.\<close>

definition connect :: "ref \<times> ref \<Rightarrow> state \<Rightarrow> state" where
  "connect ab s = attemptConnection (Some (snd ab)) (s\<lparr>selectedNode := Some (fst ab)\<rparr>)"

fun connects :: "(ref \<times> ref) list \<Rightarrow> state \<Rightarrow> state" where
  "connects [] s = s"
| "connects (ab # rest) s = connects rest (connect ab s)"

subsection \<open>Loading a file\<close>

text \<open>
  The values \<open>JSON.parse\<close> returns. An object is the list of its properties; a key is
  looked up at its first entry.
\<close>

datatype json =
    JNull
  | JBool bool
  | JNum real
  | JStr string
  | JArr "json list"
  | JObj "(string \<times> json) list"

text \<open>
  A run of \<open>restoreFromSnapshot\<close> on a parsed document either returns, or throws a
  \<open>TypeError\<close> part of the way (the state carried is the one reached at the throw), or
  builds a node object whose fields are not of the types of \<open>node\<close> (a coordinate that is a
  string, a missing label): such a document is not modelled.
\<close>

datatype 'a run = Returns 'a | Throws 'a | Unmodelled

text \<open>Reading property \<open>k\<close> (one of \<open>nodes\<close>, \<open>edges\<close>, \<open>x\<close>, ...) of a value other than
  \<open>null\<close>: \<open>None\<close> is \<open>undefined\<close>. Numbers, booleans, strings and arrays have no such
  property.\<close>

definition getProp :: "string \<Rightarrow> json \<Rightarrow> json option" where
  "getProp k v = (case v of JObj kvs \<Rightarrow> map_of kvs k | _ \<Rightarrow> None)"

definition numProp :: "string \<Rightarrow> json \<Rightarrow> real option" where
  "numProp k v = (case getProp k v of Some (JNum c) \<Rightarrow> Some c | _ \<Rightarrow> None)"

definition strProp :: "string \<Rightarrow> json \<Rightarrow> string option" where
  "strProp k v = (case getProp k v of Some (JStr c) \<Rightarrow> Some c | _ \<Rightarrow> None)"

text \<open>The integer a number is, if it is one: a node id is strictly equal to no other value.\<close>

definition intOfNum :: "real \<Rightarrow> int option" where
  "intOfNum c = (if c = of_int \<lfloor>c\<rfloor> then Some \<lfloor>c\<rfloor> else None)"

definition persistedKeys :: "string list" where
  "persistedKeys = [''x'', ''y'', ''id'', ''label'', ''speed'', ''friction'', ''tx'', ''ty'']"

text \<open>A node entry of the types the sketch saves: an object with exactly the eight saved
  properties, numbers where the sketch saves numbers, an integer id and a string label.\<close>

definition nodeDataOf :: "json \<Rightarrow> nodeData option" where
  "nodeDataOf v =
     (case v of
        JObj kvs \<Rightarrow>
          if list_all (\<lambda>k. List.member persistedKeys k) (map fst kvs)
          then
            (case (numProp ''x'' v, numProp ''y'' v, Option.bind (numProp ''id'' v) intOfNum,
                   strProp ''label'' v) of
               (Some px, Some py, Some i, Some l) \<Rightarrow>
                 (case (numProp ''speed'' v, numProp ''friction'' v, numProp ''tx'' v, numProp ''ty'' v) of
                    (Some sp, Some fr, Some ptx, Some pty) \<Rightarrow>
                      Some \<lparr>d_x = px, d_y = py, d_id = i, d_label = l, d_speed = sp,
                            d_friction = fr, d_tx = ptx, d_ty = pty\<rparr>
                  | _ \<Rightarrow> None)
             | _ \<Rightarrow> None)
          else None
      | _ \<Rightarrow> None)"

text \<open>\<open>snapshot.nodes.map(nData => ...)\<close> on the entries of a parsed array: reading
  \<open>nData.x\<close> throws when an entry is \<open>null\<close>, and nothing has been assigned then.\<close>

definition nodeEntries :: "json list \<Rightarrow> nodeData list run" where
  "nodeEntries vs =
     (if list_ex (\<lambda>v. v = JNull) vs then Throws []
      else if list_ex (\<lambda>v. nodeDataOf v = None) vs then Unmodelled
      else Returns (map (\<lambda>v. the (nodeDataOf v)) vs))"

definition idOfJson :: "json option \<Rightarrow> int option" where
  "idOfJson v = (case v of Some (JNum c) \<Rightarrow> intOfNum c | _ \<Rightarrow> None)"

definition nthOpt :: "'a list \<Rightarrow> nat \<Rightarrow> 'a option" where
  "nthOpt xs i = (if i < length xs then Some (xs ! i) else None)"

text \<open>The destructuring \<open>([idA, idB]) => ...\<close> of one edge entry: an array gives its
  first two elements (\<open>undefined\<close> when absent), a string gives characters (strings, equal
  to no id), any other value is not iterable and the destructuring throws.\<close>

definition edgeEntry :: "json \<Rightarrow> (int option \<times> int option) option" where
  "edgeEntry v =
     (case v of
        JArr xs \<Rightarrow> Some (idOfJson (nthOpt xs 0), idOfJson (nthOpt xs 1))
      | JStr cs \<Rightarrow> Some (None, None)
      | _ \<Rightarrow> None)"

definition edgeEntries :: "json list \<Rightarrow> (int option \<times> int option) list option" where
  "edgeEntries vs =
     (if list_ex (\<lambda>v. edgeEntry v = None) vs then None
      else Some (map (\<lambda>v. the (edgeEntry v)) vs))"

text \<open>\<open>restoreFromSnapshot\<close> run on the value \<open>JSON.parse\<close> returned.\<close>

definition restoreFromJson :: "json \<Rightarrow> state \<Rightarrow> state run" where
  "restoreFromJson snap s =
     (let s1 = clearTransient s in
      case snap of
        JNull \<Rightarrow> Throws s1
      | _ \<Rightarrow>
        (case getProp ''nodes'' snap of
           Some (JArr nDatas) \<Rightarrow>
             (case nodeEntries nDatas of
                Throws _ \<Rightarrow> Throws s1
              | Unmodelled \<Rightarrow> Unmodelled
              | Returns ds \<Rightarrow>
                 (let res = restoreNodes (isLabelsAlwaysVisible s1) ds (nextRef s1) (heap s1);
                      s2 = s1\<lparr>heap := snd (snd res), nextRef := fst (snd res), nodes := fst res\<rparr>
                  in case getProp ''edges'' snap of
                       Some (JArr es) \<Rightarrow>
                         (case edgeEntries es of
                            None \<Rightarrow> Throws s2
                          | Some ids \<Rightarrow> Returns (s2\<lparr>edges := restoreEdges (heap s2) (nodes s2) ids\<rparr>))
                     | _ \<Rightarrow> Throws s2))
         | _ \<Rightarrow> Throws s1))"

text \<open>What \<open>createFileInput\<close> hands to \<open>handleFileLoad\<close>: \<open>parsed\<close> is the result of
  \<open>JSON.parse(file.data)\<close>, \<open>None\<close> when it throws a \<open>SyntaxError\<close>.\<close>

record loadedFile =
  ftype :: string
  subtype :: string
  parsed :: "json option"

definition handleFileLoad :: "loadedFile \<Rightarrow> state \<Rightarrow> state run" where
  "handleFileLoad f s =
     (if ftype f \<noteq> ''application'' then Returns (createToast InvalidFileType s)
      else if subtype f \<noteq> ''json'' then Returns (createToast InvalidFileType s)
      else
        (case parsed f of
           None \<Rightarrow> Returns (createToast CouldNotParse s)
         | Some snap \<Rightarrow>
            (case restoreFromJson snap s of
               Throws s1 \<Rightarrow> Returns (createToast CouldNotParse s1)
             | Unmodelled \<Rightarrow> Unmodelled
             | Returns s1 \<Rightarrow>
                (let s2 = home s1;
                     s3 = s2\<lparr>undoStack := [createSnapshot s2]\<rparr>;
                     s4 = s3\<lparr>redoStack := []\<rparr>
                 in Returns (createToast LoadedSuccessfully s4)))))"

subsection \<open>The initial globals and setup\<close>

text \<open>The values the globals are declared with. No node object exists yet; the store's
  content at references never handed out is immaterial.\<close>

definition initialState :: state where
  "initialState =
     \<lparr>heap = (\<lambda>a. Node 0 0 0 False), nextRef = 0, millis = 0, nodes = [], edges = [], toasts = [],
      undoStack = [], redoStack = [],
      worldBounds = \<lparr>wb_left = 0, wb_right = 0, wb_top = 0, wb_bottom = 0\<rparr>,
      selectedNode = None, hoveredNode = None, draggedNode = None,
      isConnectingNode = False, isLabelsAlwaysVisible = False, isAllowOverlap = False,
      isBoundaryStatic = False, isDrawPreview = True,
      zoom = 1, offsetX = 0, offsetY = 0, canvasX = 0, canvasY = 0\<rparr>"

text \<open>\<open>setup()\<close> records the empty scene first; the rest of it creates widgets.\<close>

definition setupSketch :: "state \<Rightarrow> state" where
  "setupSketch s = saveState s"

subsection \<open>Properties of the node array\<close>

text \<open>The array holds each node object once, and only objects that \<open>new Node\<close> has
  handed out.\<close>

definition sceneOk :: "state \<Rightarrow> bool" where
  "sceneOk s = (distinct (nodes s) \<and> list_all (\<lambda>a. a < nextRef s) (nodes s))"

subsection \<open>Properties of the edge collection\<close>

text \<open>No entry is a self-loop and no two entries join the same unordered pair.\<close>

fun simpleEdges :: "(ref \<times> ref) list \<Rightarrow> bool" where
  "simpleEdges [] = True"
| "simpleEdges (e # es) =
     (fst e \<noteq> snd e \<and> \<not> list_ex (\<lambda>f. f = e \<or> f = (snd e, fst e)) es \<and> simpleEdges es)"

subsection \<open>Example scenes\<close>

text \<open>Three nodes in a row joined as a path, the pointer over the first.\<close>

definition pathScene :: state where
  "pathScene =
     initialState
       \<lparr>heap := (heap initialState)(0 := Node 100 100 1 False, 1 := Node 200 100 2 False,
                                     2 := Node 300 100 3 False),
        nextRef := 3, nodes := [0, 1, 2], edges := [(0, 1), (1, 2)],
        hoveredNode := Some 0, canvasX := 100, canvasY := 100\<rparr>"

text \<open>The same scene with the first node selected and connect mode on.\<close>

definition connectScene :: state where
  "connectScene = pathScene\<lparr>selectedNode := Some 0, isConnectingNode := True\<rparr>"

definition rightClick :: pointer where
  "rightClick =
     \<lparr>mouseX = 100, mouseY = 100, width = 800, height = 600, mouseButton = RIGHT, spaceDown = False\<rparr>"

definition leftClick :: pointer where
  "leftClick =
     \<lparr>mouseX = 100, mouseY = 100, width = 800, height = 600, mouseButton = LEFT, spaceDown = False\<rparr>"

text \<open>One node at rest at the origin whose drag target is 1000 to the right.\<close>

definition dragScene :: state where
  "dragScene =
     initialState
       \<lparr>heap := (heap initialState)(0 := (Node 0 0 1 False)\<lparr>tx := 1000\<rparr>),
        nextRef := 1, nodes := [0],
        worldBounds := \<lparr>wb_left = - 2000, wb_right = 2000, wb_top = - 2000, wb_bottom = 2000\<rparr>,
        draggedNode := Some 0\<rparr>"

text \<open>Two nodes at rest, 10 apart, so that they overlap (the radius is 20).\<close>

definition overlapScene :: state where
  "overlapScene =
     initialState
       \<lparr>heap := (heap initialState)(0 := Node 0 0 1 False, 1 := Node 10 0 2 False),
        nextRef := 2, nodes := [0, 1],
        worldBounds := \<lparr>wb_left = - 2000, wb_right = 2000, wb_top = - 2000, wb_bottom = 2000\<rparr>\<rparr>"

text \<open>One node 100 to the left of the left bound, moving right at 9, with no drag target
  other than its own place.\<close>

definition boundaryScene :: state where
  "boundaryScene =
     initialState
       \<lparr>heap := (heap initialState)(0 := (Node (- 100) 300 1 False)\<lparr>vx := 9\<rparr>),
        nextRef := 1, nodes := [0],
        worldBounds := \<lparr>wb_left = 0, wb_right = 800, wb_top = 0, wb_bottom = 600\<rparr>\<rparr>"

definition cameraScene :: state where
  "cameraScene = initialState\<lparr>zoom := 2, offsetX := 30, offsetY := - 10\<rparr>"

text \<open>A JSON file whose text is \<open>{"nodes": []}\<close>: it parses, and has no \<open>edges\<close>.\<close>

definition nodesOnlyDocument :: loadedFile where
  "nodesOnlyDocument =
     \<lparr>ftype = ''application'', subtype = ''json'', parsed = Some (JObj [(''nodes'', JArr [])])\<rparr>"

text \<open>A document of the saved shape: two nodes with ids 1 and 2, the edge between them and
  an edge to an id no node has.\<close>

definition nodeJson :: "real \<Rightarrow> real \<Rightarrow> real \<Rightarrow> string \<Rightarrow> json" where
  "nodeJson px py i l =
     JObj [(''x'', JNum px), (''y'', JNum py), (''id'', JNum i), (''label'', JStr l),
           (''speed'', JNum 0.1), (''friction'', JNum 0.8), (''tx'', JNum px), (''ty'', JNum py)]"

definition pairDocument :: loadedFile where
  "pairDocument =
     \<lparr>ftype = ''application'', subtype = ''json'',
      parsed = Some (JObj [(''nodes'', JArr [nodeJson 100 100 1 ''a'', nodeJson 200 100 2 ''b'']),
                           (''edges'', JArr [JArr [JNum 1, JNum 2], JArr [JNum 1, JNum 7]])])\<rparr>"

section \<open>Properties\<close>

lemmas scene_defs = initialState_def pathScene_def connectScene_def rightClick_def leftClick_def
  dragScene_def overlapScene_def cameraScene_def setupSketch_def nodesOnlyDocument_def
  pairDocument_def boundaryScene_def

subsection \<open>Camera\<close>

lemma constrain_range: "low \<le> high \<Longrightarrow> low \<le> constrain n low high \<and> constrain n low high \<le> high"
  by (simp add: constrain_def)

text \<open>
  C8: for a camera whose zoom lies in \<open>[MIN_ZOOM, MAX_ZOOM]\<close>, the forward mapping
  \<open>screen = world * zoom + offset\<close> followed by \<open>screenToWorld\<close> gives the world point
  back, and \<open>screenToWorld\<close> followed by the forward mapping gives the screen point back.
  Over the reals the round trip is exact.
\<close>

theorem screenToWorld_worldToScreen_inverse:
  assumes "MIN_ZOOM \<le> zoom s" and "zoom s \<le> MAX_ZOOM"
  shows "(case worldToScreen s wx wy of (sx, sy) \<Rightarrow> screenToWorld s sx sy) = (wx, wy)
       \<and> (case screenToWorld s sx sy of (wx, wy) \<Rightarrow> worldToScreen s wx wy) = (sx, sy)"
proof -
  from assms(1) have "zoom s \<noteq> 0"
    by (simp add: MIN_ZOOM_def)
  then show ?thesis
    by (simp add: worldToScreen_def screenToWorld_def)
qed

text \<open>C8 at zoom 2 and offset (30, -10): the world point (10, 10) is the screen point (50, 10).\<close>

theorem screenToWorld_worldToScreen_inverse_witness:
  "MIN_ZOOM \<le> zoom cameraScene \<and> zoom cameraScene \<le> MAX_ZOOM
   \<and> worldToScreen cameraScene 10 10 = (50, 10)
   \<and> screenToWorld cameraScene 50 10 = (10, 10)"
  using screenToWorld_worldToScreen_inverse [of cameraScene 10 10 50 10]
  by (simp add: MIN_ZOOM_def MAX_ZOOM_def scene_defs worldToScreen_def screenToWorld_def)

text \<open>
  C5: for every delta and pivot, \<open>applyZoom\<close> leaves the zoom in \<open>[MIN_ZOOM, MAX_ZOOM]\<close>
  (it is the old zoom plus delta, clamped), the new offset is
  \<open>pivot - worldAtPivot * newZoom\<close>, and the world point under the pivot before the call is
  under the pivot after it. The zoom before the call is taken to be nonzero, as the division
  in \<open>screenToWorld\<close> needs.
\<close>

theorem applyZoom_clamped_pivot_fixed:
  assumes "zoom s \<noteq> 0"
  shows "MIN_ZOOM \<le> zoom (applyZoom delta px py s)
       \<and> zoom (applyZoom delta px py s) \<le> MAX_ZOOM
       \<and> zoom (applyZoom delta px py s) = constrain (zoom s + delta) MIN_ZOOM MAX_ZOOM
       \<and> offsetX (applyZoom delta px py s) = px - fst (screenToWorld s px py) * zoom (applyZoom delta px py s)
       \<and> offsetY (applyZoom delta px py s) = py - snd (screenToWorld s px py) * zoom (applyZoom delta px py s)
       \<and> screenToWorld (applyZoom delta px py s) px py = screenToWorld s px py
       \<and> worldToScreen (applyZoom delta px py s) (fst (screenToWorld s px py)) (snd (screenToWorld s px py))
           = (px, py)"
proof -
  have r: "MIN_ZOOM \<le> constrain (zoom s + delta) MIN_ZOOM MAX_ZOOM
         \<and> constrain (zoom s + delta) MIN_ZOOM MAX_ZOOM \<le> MAX_ZOOM"
    by (rule constrain_range) (simp add: MIN_ZOOM_def MAX_ZOOM_def)
  then have nz: "constrain (zoom s + delta) MIN_ZOOM MAX_ZOOM \<noteq> 0"
    by (simp add: MIN_ZOOM_def)
  show ?thesis
    using r nz by (simp add: applyZoom_def Let_def screenToWorld_def worldToScreen_def)
qed

text \<open>C5 at zoom 2, offset (30, -10) and pivot (50, 10): a delta of 1 gives zoom 3 and keeps
  the world point (10, 10) under the pivot; a delta of 10 is clamped to zoom 5.\<close>

theorem applyZoom_clamped_pivot_fixed_witness:
  "zoom cameraScene \<noteq> 0
   \<and> zoom (applyZoom 1 50 10 cameraScene) = 3
   \<and> offsetX (applyZoom 1 50 10 cameraScene) = 20
   \<and> offsetY (applyZoom 1 50 10 cameraScene) = - 20
   \<and> screenToWorld cameraScene 50 10 = (10, 10)
   \<and> screenToWorld (applyZoom 1 50 10 cameraScene) 50 10 = (10, 10)
   \<and> zoom (applyZoom 10 50 10 cameraScene) = 5"
proof -
  have z: "zoom cameraScene \<noteq> 0"
    by (simp add: scene_defs)
  show ?thesis
    using applyZoom_clamped_pivot_fixed [OF z, of 1 50 10]
      applyZoom_clamped_pivot_fixed [OF z, of 10 50 10]
    by (simp add: scene_defs screenToWorld_def constrain_def MIN_ZOOM_def MAX_ZOOM_def)
qed

subsection \<open>History\<close>

lemma heap_saveState [simp]: "heap (saveState s) = heap s"
  by (simp add: saveState_def Let_def)

lemma nodes_saveState [simp]: "nodes (saveState s) = nodes s"
  by (simp add: saveState_def Let_def)

lemma edges_saveState [simp]: "edges (saveState s) = edges s"
  by (simp add: saveState_def Let_def)

text \<open>
  C6: when the undo stack holds at most one snapshot, \<open>undo\<close> only appends the
  "Nothing to undo." toast: both stacks, the nodes, the edges and the node objects are as
  before. The branch has no operation that can throw.
\<close>

theorem undo_sentinel_noop:
  assumes "length (undoStack s) \<le> 1"
  shows "undo s = s\<lparr>toasts := toasts s @ [\<lparr>message = NothingToUndo, createdAt = millis s, duration = 3000\<rparr>]\<rparr>
       \<and> undoStack (undo s) = undoStack s \<and> redoStack (undo s) = redoStack s
       \<and> nodes (undo s) = nodes s \<and> edges (undo s) = edges s \<and> heap (undo s) = heap s"
  using assms by (simp add: undo_def createToast_def)

text \<open>C6 right after \<open>setup\<close>: the stack holds the snapshot of the empty scene only.\<close>

theorem undo_sentinel_noop_witness:
  "length (undoStack (setupSketch initialState)) \<le> 1
   \<and> undoStack (undo (setupSketch initialState)) = [\<lparr>snap_nodes = [], snap_edges = []\<rparr>]
   \<and> redoStack (undo (setupSketch initialState)) = []
   \<and> nodes (undo (setupSketch initialState)) = []
   \<and> map message (toasts (undo (setupSketch initialState))) = [NothingToUndo]"
proof -
  have l: "length (undoStack (setupSketch initialState)) \<le> 1"
    by (simp add: scene_defs saveState_def Let_def HISTORY_LIMIT_def)
  show ?thesis
    using undo_sentinel_noop [OF l]
    by (simp add: scene_defs saveState_def createSnapshot_def Let_def HISTORY_LIMIT_def)
qed

subsection \<open>Connect mode and selection\<close>

text \<open>
  C9: an attempt from a selected node on a different node leaves connect mode off and the
  selection empty, whether or not an edge was added; an attempt on the selected node
  itself, or on no node, returns the state unchanged.
\<close>

theorem attemptConnection_mode_and_selection:
  "(selectedNode s = Some a \<and> a \<noteq> b \<longrightarrow>
      isConnectingNode (attemptConnection (Some b) s) = False
      \<and> selectedNode (attemptConnection (Some b) s) = None)
   \<and> (selectedNode s = Some a \<longrightarrow> attemptConnection (Some a) s = s)
   \<and> attemptConnection None s = s"
  by (simp add: attemptConnection_def Let_def split: option.split)

text \<open>C9 on the path 0 - 1 - 2 with node 0 selected: the attempt on 2 adds an edge, the
  attempt on 1 finds the edge present, and both leave connect mode.\<close>

theorem attemptConnection_mode_and_selection_witness:
  "selectedNode connectScene = Some 0
   \<and> isConnectingNode connectScene
   \<and> \<not> isConnectingNode (attemptConnection (Some 2) connectScene)
   \<and> selectedNode (attemptConnection (Some 2) connectScene) = None
   \<and> edges (attemptConnection (Some 2) connectScene) = [(0, 1), (1, 2), (0, 2)]
   \<and> \<not> isConnectingNode (attemptConnection (Some 1) connectScene)
   \<and> selectedNode (attemptConnection (Some 1) connectScene) = None
   \<and> edges (attemptConnection (Some 1) connectScene) = [(0, 1), (1, 2)]
   \<and> attemptConnection (Some 0) connectScene = connectScene
   \<and> attemptConnection None connectScene = connectScene"
  using attemptConnection_mode_and_selection [of connectScene 0 2]
    attemptConnection_mode_and_selection [of connectScene 0 1]
  by (simp add: scene_defs attemptConnection_def Let_def createToast_def)

text \<open>
  C10: a press inside the canvas with a button other than the right one, over no node and
  without the space key, appends a node, empties the selection and turns connect mode off.
\<close>

theorem create_clears_selection:
  assumes "0 \<le> mouseX p" and "mouseX p \<le> width p" and "0 \<le> mouseY p" and "mouseY p \<le> height p"
    and "mouseButton p \<noteq> RIGHT" and "hoveredNode s = None" and "\<not> spaceDown p"
  shows "selectedNode (mousePressed p s) = None \<and> isConnectingNode (mousePressed p s) = False
       \<and> nodes (mousePressed p s) = nodes s @ [nextRef s]"
  using assms by (simp add: mousePressed_def Let_def saveState_def)

text \<open>C10 with node 0 selected and connect mode on: the click on empty space creates the
  fourth node and clears both.\<close>

theorem create_clears_selection_witness:
  "hoveredNode (connectScene\<lparr>hoveredNode := None\<rparr>) = None
   \<and> selectedNode (connectScene\<lparr>hoveredNode := None\<rparr>) = Some 0
   \<and> isConnectingNode (connectScene\<lparr>hoveredNode := None\<rparr>)
   \<and> selectedNode (mousePressed leftClick (connectScene\<lparr>hoveredNode := None\<rparr>)) = None
   \<and> \<not> isConnectingNode (mousePressed leftClick (connectScene\<lparr>hoveredNode := None\<rparr>))
   \<and> nodes (mousePressed leftClick (connectScene\<lparr>hoveredNode := None\<rparr>)) = [0, 1, 2, 3]"
  using create_clears_selection [of leftClick "connectScene\<lparr>hoveredNode := None\<rparr>"]
  by (simp add: scene_defs)

subsection \<open>Deleting a node\<close>

lemma updateNodesIDLoop_other: "a \<notin> set ns \<Longrightarrow> updateNodesIDLoop k ns h a = h a"
  by (induction ns arbitrary: k h) auto

lemma updateNodesIDLoop_id:
  "distinct ns \<Longrightarrow> i < length ns \<Longrightarrow> node_id (updateNodesIDLoop k ns h (ns ! i)) = int (k + i) + 1"
proof (induction ns arbitrary: k h i)
  case Nil
  then show ?case by simp
next
  case (Cons a rest)
  show ?case
  proof (cases i)
    case 0
    with Cons.prems show ?thesis
      by (simp add: updateNodesIDLoop_other)
  next
    case (Suc j)
    with Cons.prems
    have "node_id (updateNodesIDLoop (Suc k) rest (h(a := (h a)\<lparr>node_id := int k + 1\<rparr>)) (rest ! j))
            = int (Suc k + j) + 1"
      by (intro Cons.IH) auto
    with Suc show ?thesis by simp
  qed
qed

lemma distinct_splice1: "distinct xs \<Longrightarrow> distinct (splice1 i xs)"
  by (simp add: splice1_def Let_def set_take_disj_set_drop_if_distinct)

lemma indexFrom_in:
  "a \<in> set xs \<Longrightarrow>
     \<exists>j < length xs. indexFrom k xs a = k + int j \<and> take j xs @ drop (Suc j) xs = remove1 a xs"
proof (induction xs arbitrary: k)
  case Nil
  then show ?case by simp
next
  case (Cons b rest)
  show ?case
  proof (cases "b = a")
    case True
    then show ?thesis
      by (intro exI [of _ 0]) simp
  next
    case False
    with Cons.prems have "a \<in> set rest" by simp
    from Cons.IH [OF this, of "k + 1"] obtain j where
      "j < length rest" and "indexFrom (k + 1) rest a = k + 1 + int j"
      and "take j rest @ drop (Suc j) rest = remove1 a rest"
      by blast
    with False show ?thesis
      by (intro exI [of _ "Suc j"]) simp
  qed
qed

lemma splice1_indexOf: "a \<in> set xs \<Longrightarrow> splice1 (indexOf xs (Some a)) xs = remove1 a xs"
proof -
  assume "a \<in> set xs"
  from indexFrom_in [OF this, of 0] obtain j where
    "j < length xs" and "indexFrom 0 xs a = int j" and "take j xs @ drop (Suc j) xs = remove1 a xs"
    by auto
  then show ?thesis
    by (simp add: splice1_def indexOf_def Let_def)
qed

text \<open>The right-click branch of \<open>mousePressed\<close>, field by field.\<close>

lemma mousePressed_delete:
  assumes "0 \<le> mouseX p" and "mouseX p \<le> width p" and "0 \<le> mouseY p" and "mouseY p \<le> height p"
    and "mouseButton p = RIGHT" and "hoveredNode s = Some h"
  shows "nodes (mousePressed p s) = splice1 (indexOf (nodes s) (Some h)) (nodes s)"
    and "edges (mousePressed p s) = filter (\<lambda>edge. fst edge \<noteq> h \<and> snd edge \<noteq> h) (edges s)"
    and "heap (mousePressed p s) = updateNodesIDLoop 0 (nodes (mousePressed p s)) (heap s)"
  using assms by (simp_all add: mousePressed_def Let_def updateNodesID_def)

text \<open>
  C3: after a deletion (a right press inside the canvas over a node), the node at position
  \<open>i\<close> of the array has id \<open>i + 1\<close>, for every position of the array that is left. The array
  holds each node object once.
\<close>

theorem delete_ids_dense:
  assumes "0 \<le> mouseX p" and "mouseX p \<le> width p" and "0 \<le> mouseY p" and "mouseY p \<le> height p"
    and "mouseButton p = RIGHT" and "hoveredNode s = Some h" and "distinct (nodes s)"
  shows "\<forall>i < length (nodes (mousePressed p s)).
           node_id (heap (mousePressed p s) (nodes (mousePressed p s) ! i)) = int i + 1"
proof (intro allI impI)
  fix i
  assume i: "i < length (nodes (mousePressed p s))"
  have d: "distinct (nodes (mousePressed p s))"
    using assms by (simp add: mousePressed_delete(1) distinct_splice1)
  have "heap (mousePressed p s) = updateNodesIDLoop 0 (nodes (mousePressed p s)) (heap s)"
    using assms by (simp add: mousePressed_delete(3))
  then show "node_id (heap (mousePressed p s) (nodes (mousePressed p s) ! i)) = int i + 1"
    using updateNodesIDLoop_id [OF d i, of 0 "heap s"] by simp
qed

text \<open>C3 on the path 0 - 1 - 2: deleting the first node leaves the old second and third
  nodes with ids 1 and 2.\<close>

theorem delete_ids_dense_witness:
  "distinct (nodes pathScene)
   \<and> hoveredNode pathScene = Some 0
   \<and> nodes (mousePressed rightClick pathScene) = [1, 2]
   \<and> node_id (heap pathScene 1) = 2
   \<and> node_id (heap (mousePressed rightClick pathScene) 1) = 1
   \<and> node_id (heap (mousePressed rightClick pathScene) 2) = 2"
proof -
  have n: "nodes (mousePressed rightClick pathScene) = [1, 2]"
    by (simp add: scene_defs mousePressed_def Let_def indexOf_def splice1_def updateNodesID_def)
  have "\<forall>i < length (nodes (mousePressed rightClick pathScene)).
          node_id (heap (mousePressed rightClick pathScene)
            (nodes (mousePressed rightClick pathScene) ! i)) = int i + 1"
    by (rule delete_ids_dense [of rightClick pathScene 0]) (simp_all add: scene_defs)
  from this [THEN spec, of 0] this [THEN spec, of 1] n show ?thesis
    by (simp add: scene_defs Node_def)
qed

text \<open>
  A deletion keeps the edges in their order and removes exactly those with the hovered node
  as an endpoint; when the hovered node is in the array, it is the node taken out of the
  array, and then the deletion removes the edges of the deleted node and no others.
\<close>

lemma delete_removes_hovered_edges:
  assumes "0 \<le> mouseX p" and "mouseX p \<le> width p" and "0 \<le> mouseY p" and "mouseY p \<le> height p"
    and "mouseButton p = RIGHT" and "hoveredNode s = Some h"
  shows "edges (mousePressed p s) = filter (\<lambda>edge. fst edge \<noteq> h \<and> snd edge \<noteq> h) (edges s)
       \<and> (\<forall>e. e \<in> set (edges (mousePressed p s)) \<longleftrightarrow> e \<in> set (edges s) \<and> fst e \<noteq> h \<and> snd e \<noteq> h)
       \<and> (h \<in> set (nodes s) \<longrightarrow> nodes (mousePressed p s) = remove1 h (nodes s))
       \<and> (h \<in> set (nodes s) \<and> distinct (nodes s) \<longrightarrow> h \<notin> set (nodes (mousePressed p s)))"
  using assms by (auto simp: mousePressed_delete splice1_indexOf)

text \<open>
  C7 fails on the code. The hover is recomputed by \<open>draw\<close> only, so after a deletion it
  still refers to the deleted object until the next frame. On the path 0 - 1 - 2 with
  node 0 hovered, a first right press deletes node 0 and the edge (0, 1). A second right
  press before the next frame finds the hovered object gone from the array: \<open>indexOf\<close>
  gives \<open>-1\<close>, \<open>splice(-1, 1)\<close> takes the last node, 2, out of the array, and the filter
  looks for node 0, so the edge (1, 2) of the deleted node 2 survives.
\<close>

theorem delete_stale_hover_keeps_edge:
  "nodes pathScene = [0, 1, 2]
   \<and> edges pathScene = [(0, 1), (1, 2)]
   \<and> hoveredNode pathScene = Some 0
   \<and> hoveredNode (mousePressed rightClick pathScene) = Some 0
   \<and> nodes (mousePressed rightClick pathScene) = [1, 2]
   \<and> edges (mousePressed rightClick pathScene) = [(1, 2)]
   \<and> nodes (mousePressed rightClick (mousePressed rightClick pathScene)) = [1]
   \<and> edges (mousePressed rightClick (mousePressed rightClick pathScene)) = [(1, 2)]"
proof -
  have p: "0 \<le> mouseX rightClick" "mouseX rightClick \<le> width rightClick"
    "0 \<le> mouseY rightClick" "mouseY rightClick \<le> height rightClick" "mouseButton rightClick = RIGHT"
    by (simp_all add: rightClick_def)
  have s0: "nodes pathScene = [0, 1, 2]" "edges pathScene = [(0, 1), (1, 2)]"
    and h0: "hoveredNode pathScene = Some 0"
    by (simp_all add: scene_defs)
  have h: "hoveredNode (mousePressed rightClick pathScene) = Some 0"
    using p h0 by (simp add: mousePressed_def Let_def updateNodesID_def saveState_def)
  have n: "nodes (mousePressed rightClick pathScene) = [1, 2]"
    using mousePressed_delete(1) [OF p h0] by (simp add: s0 indexOf_def splice1_def)
  have e: "edges (mousePressed rightClick pathScene) = [(1, 2)]"
    using mousePressed_delete(2) [OF p h0] by (simp add: s0)
  have n2: "nodes (mousePressed rightClick (mousePressed rightClick pathScene)) = [1]"
    using mousePressed_delete(1) [OF p h] by (simp add: n indexOf_def splice1_def)
  have e2: "edges (mousePressed rightClick (mousePressed rightClick pathScene)) = [(1, 2)]"
    using mousePressed_delete(2) [OF p h] by (simp add: e)
  from s0 h0 h n e n2 e2 show ?thesis
    by simp
qed

subsection \<open>The node array holds each object once\<close>

text \<open>\<open>sceneOk\<close> holds after \<open>setup\<close> and every handler modelled here keeps it, so the
  hypothesis \<open>distinct (nodes s)\<close> of the theorems on deletion and on the physics frame is
  true of the scenes these handlers reach.\<close>

lemma nextRef_saveState [simp]: "nextRef (saveState s) = nextRef s"
  by (simp add: saveState_def Let_def)

lemma sceneOk_saveState [simp]: "sceneOk (saveState s) = sceneOk s"
  by (simp add: sceneOk_def)

lemma sceneOk_createToast [simp]: "sceneOk (createToast m s) = sceneOk s"
  by (simp add: sceneOk_def createToast_def)

lemma sceneOk_setup: "sceneOk (setupSketch initialState)"
  by (simp add: sceneOk_def setupSketch_def initialState_def)

lemma set_splice1: "set (splice1 i xs) \<subseteq> set xs"
  by (auto simp: splice1_def Let_def dest: in_set_takeD in_set_dropD)

lemma attemptConnection_nodes [simp]:
  "nodes (attemptConnection t s) = nodes s" "nextRef (attemptConnection t s) = nextRef s"
  by (simp_all add: attemptConnection_def Let_def createToast_def split: option.split)

lemma sceneOk_attemptConnection: "sceneOk s \<Longrightarrow> sceneOk (attemptConnection t s)"
  by (simp add: sceneOk_def)

lemma sceneOk_mousePressed: "sceneOk s \<Longrightarrow> sceneOk (mousePressed p s)"
  using set_splice1 [of "indexOf (nodes s) (hoveredNode s)" "nodes s"]
  by (auto simp: mousePressed_def Let_def sceneOk_def updateNodesID_def distinct_splice1
      list_all_iff split: option.split)

lemma restoreNodes_refs:
  "fst (restoreNodes vis ds nxt h) = [nxt ..< nxt + length ds]
   \<and> fst (snd (restoreNodes vis ds nxt h)) = nxt + length ds"
  by (induction ds arbitrary: nxt h) (simp_all add: Let_def upt_rec)

lemma sceneOk_restoreFromSnapshot: "sceneOk (restoreFromSnapshot snap s)"
  by (simp add: restoreFromSnapshot_def Let_def sceneOk_def restoreNodes_refs clearTransient_def
      list_all_iff)

lemma sceneOk_undo: "sceneOk s \<Longrightarrow> sceneOk (undo s)"
  by (simp add: undo_def Let_def sceneOk_restoreFromSnapshot)

lemma sceneOk_redo: "sceneOk s \<Longrightarrow> sceneOk (redo s)"
  by (simp add: redo_def Let_def sceneOk_restoreFromSnapshot)

lemma sceneOk_drawNodes: "sceneOk s \<Longrightarrow> sceneOk (drawNodes s)"
  by (simp add: sceneOk_def drawNodes_def)

lemma sceneOk_clearTransient [simp]: "sceneOk (clearTransient s) = sceneOk s"
  by (simp add: sceneOk_def clearTransient_def)

lemma sceneOk_restored:
  "sceneOk (s\<lparr>heap := snd (snd (restoreNodes vis ds (nextRef s) h)),
              nextRef := fst (snd (restoreNodes vis ds (nextRef s) h)),
              nodes := fst (restoreNodes vis ds (nextRef s) h)\<rparr>)"
  by (simp add: sceneOk_def restoreNodes_refs list_all_iff)

lemma sceneOk_edges [simp]: "sceneOk (s\<lparr>edges := es\<rparr>) = sceneOk s"
  by (simp add: sceneOk_def)

lemma sceneOk_restoreFromJson:
  assumes "sceneOk s" and "restoreFromJson snap s = Returns s1 \<or> restoreFromJson snap s = Throws s1"
  shows "sceneOk s1"
proof -
  have r: "sceneOk ((clearTransient s)\<lparr>heap := snd (snd (restoreNodes vis ds (nextRef (clearTransient s)) h)),
              nextRef := fst (snd (restoreNodes vis ds (nextRef (clearTransient s)) h)),
              nodes := fst (restoreNodes vis ds (nextRef (clearTransient s)) h)\<rparr>)" for vis ds h
    by (rule sceneOk_restored)
  show ?thesis
    using assms r
    by (auto simp: restoreFromJson_def Let_def split: json.splits option.splits run.splits)
qed

lemma sceneOk_history [simp]:
  "sceneOk (s\<lparr>undoStack := us\<rparr>) = sceneOk s" "sceneOk (s\<lparr>redoStack := rs\<rparr>) = sceneOk s"
  "sceneOk (home s) = sceneOk s"
  by (simp_all add: sceneOk_def home_def)

lemma sceneOk_handleFileLoad:
  assumes "sceneOk s" and "handleFileLoad f s = Returns s1"
  shows "sceneOk s1"
proof -
  note returned = sceneOk_restoreFromJson [OF assms(1) disjI1]
    and thrown = sceneOk_restoreFromJson [OF assms(1) disjI2]
  show ?thesis
    using assms
    by (auto simp: handleFileLoad_def Let_def split: if_splits option.splits run.splits
        dest: returned thrown)
qed

lemma sceneOk_mouseDragged: "sceneOk s \<Longrightarrow> sceneOk (mouseDragged p px py s)"
  by (simp add: mouseDragged_def sceneOk_def split: option.split)

lemma sceneOk_mouseReleased: "sceneOk s \<Longrightarrow> sceneOk (mouseReleased s)"
  by (simp add: mouseReleased_def sceneOk_def split: option.split)

lemma sceneOk_applyZoom: "sceneOk s \<Longrightarrow> sceneOk (applyZoom delta px py s)"
  by (simp add: applyZoom_def sceneOk_def Let_def)

subsection \<open>Connecting\<close>

lemma attemptConnection_edges:
  "selectedNode s = Some a \<Longrightarrow>
     edges (attemptConnection (Some b) s) =
       (if a = b \<or> list_ex (\<lambda>(c, d). (c = a \<and> d = b) \<or> (c = b \<and> d = a)) (edges s) then edges s
        else edges s @ [(a, b)])"
  by (simp add: attemptConnection_def Let_def createToast_def)

lemma connect_edges:
  "edges (connect (a, b) s) =
     (if a = b \<or> (a, b) \<in> set (edges s) \<or> (b, a) \<in> set (edges s) then edges s
      else edges s @ [(a, b)])"
proof -
  have "list_ex (\<lambda>(c, d). (c = a \<and> d = b) \<or> (c = b \<and> d = a)) (edges s)
          \<longleftrightarrow> (a, b) \<in> set (edges s) \<or> (b, a) \<in> set (edges s)"
    by (auto simp: list_ex_iff)
  then show ?thesis
    by (simp add: connect_def attemptConnection_edges)
qed

lemma simpleEdges_snoc:
  "simpleEdges (es @ [(a, b)]) \<longleftrightarrow> simpleEdges es \<and> a \<noteq> b \<and> (a, b) \<notin> set es \<and> (b, a) \<notin> set es"
proof (induction es)
  case Nil
  show ?case by simp
next
  case (Cons e es)
  obtain c d where e: "e = (c, d)"
    by (cases e)
  have "list_ex (\<lambda>f. f = (c, d) \<or> f = (d, c)) (es @ [(a, b)])
          \<longleftrightarrow> list_ex (\<lambda>f. f = (c, d) \<or> f = (d, c)) es \<or> (a, b) = (c, d) \<or> (a, b) = (d, c)"
    by simp
  with Cons.IH show ?case
    unfolding e by (simp add: list_ex_iff) blast
qed

lemma connect_simpleEdges: "simpleEdges (edges s) \<Longrightarrow> simpleEdges (edges (connect ab s))"
  by (cases ab) (simp add: connect_edges simpleEdges_snoc)

lemma connects_simpleEdges: "simpleEdges (edges s) \<Longrightarrow> simpleEdges (edges (connects ps s))"
  by (induction ps arbitrary: s) (simp_all add: connect_simpleEdges)

lemma connects_present:
  "(a, b) \<in> set (edges s) \<or> (b, a) \<in> set (edges s) \<Longrightarrow> set ps \<subseteq> {(a, b), (b, a)}
     \<Longrightarrow> edges (connects ps s) = edges s"
proof (induction ps arbitrary: s)
  case Nil
  then show ?case by simp
next
  case (Cons p rest)
  then have e: "edges (connect p s) = edges s"
    by (auto simp: connect_edges)
  with Cons.prems have "edges (connects rest (connect p s)) = edges (connect p s)"
    by (intro Cons.IH) auto
  with e show ?case by simp
qed

lemma connects_grow:
  "set ps \<subseteq> {(a, b), (b, a)} \<Longrightarrow> length (edges (connects ps s)) \<le> length (edges s) + 1"
proof (induction ps arbitrary: s)
  case Nil
  then show ?case by simp
next
  case (Cons p rest)
  from Cons.prems have rest: "set rest \<subseteq> {(a, b), (b, a)}" and p: "p = (a, b) \<or> p = (b, a)"
    by auto
  show ?case
  proof (cases "edges (connect p s) = edges s")
    case True
    with Cons.IH [OF rest, of "connect p s"] show ?thesis by simp
  next
    case False
    with p have new: "edges (connect p s) = edges s @ [p]"
      by (auto simp: connect_edges split: if_splits)
    with p have "(a, b) \<in> set (edges (connect p s)) \<or> (b, a) \<in> set (edges (connect p s))"
      by auto
    from connects_present [OF this rest] new show ?thesis by simp
  qed
qed

text \<open>
  C4: a connect attempt of a node with itself adds no edge; an attempt on a pair already
  joined in either orientation adds none; any sequence of attempts on one unordered pair
  makes the edge collection at most one longer; and a collection with no self-loop and no
  two edges on the same unordered pair stays so under any sequence of attempts.
\<close>

theorem connect_no_duplicates:
  "edges (connect (a, a) s) = edges s
   \<and> ((a, b) \<in> set (edges s) \<or> (b, a) \<in> set (edges s) \<longrightarrow> edges (connect (a, b) s) = edges s)
   \<and> (set ps \<subseteq> {(a, b), (b, a)} \<longrightarrow> length (edges (connects ps s)) \<le> length (edges s) + 1)
   \<and> (simpleEdges (edges s) \<longrightarrow> simpleEdges (edges (connects qs s)))"
  using connects_grow [of ps a b s] connects_simpleEdges [of s qs]
  by (simp add: connect_edges)

text \<open>C4 on the path 0 - 1 - 2: connecting 0 with itself or 1 with 0 adds nothing, and three
  attempts on the pair of 0 and 2 add the one edge (0, 2).\<close>

theorem connect_no_duplicates_witness:
  "edges (connect (0, 0) pathScene) = [(0, 1), (1, 2)]
   \<and> edges (connect (1, 0) pathScene) = [(0, 1), (1, 2)]
   \<and> edges (connects [(0, 2), (2, 0), (0, 2)] pathScene) = [(0, 1), (1, 2), (0, 2)]
   \<and> simpleEdges (edges pathScene)
   \<and> simpleEdges (edges (connects [(0, 2), (2, 0), (0, 2)] pathScene))"
proof -
  have e0: "edges pathScene = [(0, 1), (1, 2)]"
    by (simp add: scene_defs)
  have e1: "edges (connect (0, 2) pathScene) = [(0, 1), (1, 2), (0, 2)]"
    using connect_edges [of 0 2 pathScene] by (simp add: e0)
  have e2: "edges (connect (2, 0) (connect (0, 2) pathScene)) = [(0, 1), (1, 2), (0, 2)]"
    using connect_edges [of 2 0 "connect (0, 2) pathScene"] by (simp add: e1)
  have e3: "edges (connect (0, 2) (connect (2, 0) (connect (0, 2) pathScene))) = [(0, 1), (1, 2), (0, 2)]"
    using connect_edges [of 0 2 "connect (2, 0) (connect (0, 2) pathScene)"] by (simp add: e2)
  show ?thesis
    using connect_no_duplicates [of 0 pathScene 1 "[(0, 2), (2, 0), (0, 2)]" "[(0, 2), (2, 0), (0, 2)]"]
      connect_no_duplicates [of 1 pathScene 0 "[]" "[]"]
    by (simp add: e3 e0)
qed

subsection \<open>The physics frame\<close>

text \<open>The repulsion on a node depends on the positions and radii in the store only.\<close>

lemma repulsionLoop_cong:
  assumes "\<And>b. node_x (h b) = node_x (h' b) \<and> node_y (h b) = node_y (h' b) \<and> node_r (h b) = node_r (h' b)"
  shows "repulsionLoop h a os acc = repulsionLoop h' a os acc"
proof (induction os arbitrary: acc)
  case Nil
  show ?case by (cases acc) simp
next
  case (Cons other rest)
  show ?case by (cases acc) (simp add: Let_def assms Cons.IH)
qed

lemma applyRepulsion_other: "b \<noteq> a \<Longrightarrow> applyRepulsion os a h b = h b"
  by (simp add: applyRepulsion_def Let_def)

lemma applyRepulsion_place:
  "node_x (applyRepulsion os a h b) = node_x (h b) \<and> node_y (applyRepulsion os a h b) = node_y (h b)
   \<and> node_r (applyRepulsion os a h b) = node_r (h b)"
  by (simp add: applyRepulsion_def Let_def)

lemma applyBoundary_place:
  "node_x (applyBoundary wb n) = node_x n \<and> node_y (applyBoundary wb n) = node_y n
   \<and> node_r (applyBoundary wb n) = node_r n"
  by (simp add: applyBoundary_def Let_def)

lemma applyRepulsion_this_cong:
  assumes "\<And>b. node_x (h b) = node_x (h' b) \<and> node_y (h b) = node_y (h' b) \<and> node_r (h b) = node_r (h' b)"
    and "h a = h' a"
  shows "applyRepulsion os a h a = applyRepulsion os a h' a"
  using repulsionLoop_cong [of h h' a os "(0, 0)", OF assms(1)] assms(2)
  by (simp add: applyRepulsion_def Let_def)

text \<open>The first loop of \<open>drawNodes\<close>, run on a tail \<open>ns\<close> of the array from a store \<open>h\<close>
  that agrees with the frame's first store \<open>h0\<close> on positions everywhere and on the whole
  object for the nodes still to come.\<close>

lemma forcesLoop_spec:
  assumes "distinct ns"
    and "\<And>b. node_x (h b) = node_x (h0 b) \<and> node_y (h b) = node_y (h0 b) \<and> node_r (h b) = node_r (h0 b)"
    and "\<And>b. b \<in> set ns \<Longrightarrow> h b = h0 b"
  shows "forcesLoop ov wb all ns h b =
           (if b \<in> set ns
            then applyBoundary wb (if ov then h0 b else applyRepulsion all b h0 b)
            else h b)"
  using assms
proof (induction ns arbitrary: h)
  case Nil
  then show ?case by simp
next
  case (Cons a rest)
  define h1 where "h1 = (if ov = False then applyRepulsion all a h else h)"
  define h2 where "h2 = h1(a := applyBoundary wb (h1 a))"
  have place1: "node_x (h1 c) = node_x (h0 c) \<and> node_y (h1 c) = node_y (h0 c) \<and> node_r (h1 c) = node_r (h0 c)"
    for c
    using Cons.prems(2) [of c] by (simp add: h1_def applyRepulsion_place)
  have place2: "node_x (h2 c) = node_x (h0 c) \<and> node_y (h2 c) = node_y (h0 c) \<and> node_r (h2 c) = node_r (h0 c)"
    for c
    using place1 [of c] place1 [of a] by (simp add: h2_def applyBoundary_place)
  have other1: "h1 c = h c" if "c \<noteq> a" for c
    using that by (simp add: h1_def applyRepulsion_other)
  have keep: "h2 c = h0 c" if "c \<in> set rest" for c
  proof -
    from that Cons.prems(1) have "c \<noteq> a" by auto
    with that Cons.prems(3) [of c] show ?thesis
      by (simp add: h2_def other1)
  qed
  have this1: "h1 a = (if ov then h0 a else applyRepulsion all a h0 a)"
    using applyRepulsion_this_cong [of h h0 a all, OF Cons.prems(2)] Cons.prems(3) [of a]
    by (simp add: h1_def)
  from Cons.prems(1) have d: "distinct rest" and na: "a \<notin> set rest"
    by auto
  have step: "forcesLoop ov wb all (a # rest) h = forcesLoop ov wb all rest h2"
    by (simp add: h1_def h2_def Let_def)
  have ih: "forcesLoop ov wb all rest h2 b =
          (if b \<in> set rest then applyBoundary wb (if ov then h0 b else applyRepulsion all b h0 b)
           else h2 b)"
    using d place2 keep by (rule Cons.IH)
  have h2a: "h2 a = applyBoundary wb (if ov then h0 a else applyRepulsion all a h0 a)"
    by (simp add: h2_def this1)
  have h2o: "h2 c = h c" if "c \<noteq> a" for c
    using that by (simp add: h2_def other1)
  show ?case
    unfolding step ih using na h2a h2o by auto
qed

lemma updateLoop_spec:
  "distinct ns \<Longrightarrow> updateLoop ns h b = (if b \<in> set ns then update (h b) else h b)"
  by (induction ns arbitrary: h) auto

text \<open>What \<open>applyBoundary\<close>, \<open>update\<close> and \<open>applyRepulsion\<close> leave in the node, in one
  record each: the boundary pushes are added to the velocity and nothing else changes.\<close>

lemma applyBoundary_eq:
  "applyBoundary wb m =
     m\<lparr>vx := vx m
              + (if node_x m - node_r m < wb_left wb then (wb_left wb - node_x m + node_r m) * 0.1 else 0)
              - (if node_x m + node_r m > wb_right wb then (node_x m + node_r m - wb_right wb) * 0.1 else 0),
       vy := vy m
              + (if node_y m - node_r m < wb_top wb then (wb_top wb - node_y m + node_r m) * 0.1 else 0)
              - (if node_y m + node_r m > wb_bottom wb then (node_y m + node_r m - wb_bottom wb) * 0.1 else 0)\<rparr>"
  by (simp add: applyBoundary_def Let_def)

lemma update_eq:
  "update n =
     n\<lparr>vx := (vx n + (tx n - node_x n) * speed n) * friction n,
       vy := (vy n + (ty n - node_y n) * speed n) * friction n,
       node_x := node_x n + (vx n + (tx n - node_x n) * speed n) * friction n,
       node_y := node_y n + (vy n + (ty n - node_y n) * speed n) * friction n\<rparr>"
  by (simp add: update_def Let_def)

lemma applyRepulsion_eq:
  "applyRepulsion ns a h a =
     (h a)\<lparr>vx := constrain (vx (h a) + fst (repulsionLoop h a ns (0, 0))) (- 5) 5,
            vy := constrain (vy (h a) + snd (repulsionLoop h a ns (0, 0))) (- 5) 5\<rparr>"
  by (simp add: applyRepulsion_def Let_def)

text \<open>
  C1, as the code has it: in a frame, every node of the array first receives, unless overlap
  is allowed, the repulsion computed from the positions at the start of the frame, and its
  velocity is clamped to \<open>[-5, 5]\<close> on both axes right then, inside \<open>applyRepulsion\<close>; the
  boundary push (a tenth of the overshoot at each bound crossed) is added to the clamped
  velocity; then \<open>update\<close> adds the spring term, multiplies the velocity by the friction once
  and adds it to the position. Nothing clamps the velocity after the boundary push, the
  spring term or the friction: the velocity and the position a node leaves the frame with
  are given in closed form. Node objects outside the array are left alone. The array holds
  each node object once.
\<close>

theorem drawNodes_per_node:
  assumes "distinct (nodes s)"
  shows "(a \<in> set (nodes s) \<longrightarrow>
            heap (drawNodes s) a =
              update (applyBoundary (worldBounds s)
                (if isAllowOverlap s then heap s a else applyRepulsion (nodes s) a (heap s) a)))
       \<and> (a \<notin> set (nodes s) \<longrightarrow> heap (drawNodes s) a = heap s a)
       \<and> vx (applyRepulsion (nodes s) a (heap s) a) =
            constrain (vx (heap s a) + fst (repulsionLoop (heap s) a (nodes s) (0, 0))) (- 5) 5
       \<and> vy (applyRepulsion (nodes s) a (heap s) a) =
            constrain (vy (heap s a) + snd (repulsionLoop (heap s) a (nodes s) (0, 0))) (- 5) 5
       \<and> vx (update n) = (vx n + (tx n - node_x n) * speed n) * friction n
       \<and> vy (update n) = (vy n + (ty n - node_y n) * speed n) * friction n
       \<and> node_x (update n) = node_x n + vx (update n)
       \<and> node_y (update n) = node_y n + vy (update n)
       \<and> applyBoundary wb m =
            m\<lparr>vx := vx m
                 + (if node_x m - node_r m < wb_left wb then (wb_left wb - node_x m + node_r m) * 0.1 else 0)
                 - (if node_x m + node_r m > wb_right wb then (node_x m + node_r m - wb_right wb) * 0.1 else 0),
              vy := vy m
                 + (if node_y m - node_r m < wb_top wb then (wb_top wb - node_y m + node_r m) * 0.1 else 0)
                 - (if node_y m + node_r m > wb_bottom wb then (node_y m + node_r m - wb_bottom wb) * 0.1 else 0)\<rparr>
       \<and> (a \<in> set (nodes s) \<longrightarrow>
            vx (heap (drawNodes s) a) =
              ((if isAllowOverlap s then vx (heap s a)
                else constrain (vx (heap s a) + fst (repulsionLoop (heap s) a (nodes s) (0, 0))) (- 5) 5)
               + (if node_x (heap s a) - node_r (heap s a) < wb_left (worldBounds s)
                  then (wb_left (worldBounds s) - node_x (heap s a) + node_r (heap s a)) * 0.1 else 0)
               - (if node_x (heap s a) + node_r (heap s a) > wb_right (worldBounds s)
                  then (node_x (heap s a) + node_r (heap s a) - wb_right (worldBounds s)) * 0.1 else 0)
               + (tx (heap s a) - node_x (heap s a)) * speed (heap s a))
              * friction (heap s a)
            \<and> vy (heap (drawNodes s) a) =
              ((if isAllowOverlap s then vy (heap s a)
                else constrain (vy (heap s a) + snd (repulsionLoop (heap s) a (nodes s) (0, 0))) (- 5) 5)
               + (if node_y (heap s a) - node_r (heap s a) < wb_top (worldBounds s)
                  then (wb_top (worldBounds s) - node_y (heap s a) + node_r (heap s a)) * 0.1 else 0)
               - (if node_y (heap s a) + node_r (heap s a) > wb_bottom (worldBounds s)
                  then (node_y (heap s a) + node_r (heap s a) - wb_bottom (worldBounds s)) * 0.1 else 0)
               + (ty (heap s a) - node_y (heap s a)) * speed (heap s a))
              * friction (heap s a)
            \<and> node_x (heap (drawNodes s) a) = node_x (heap s a) + vx (heap (drawNodes s) a)
            \<and> node_y (heap (drawNodes s) a) = node_y (heap s a) + vy (heap (drawNodes s) a))"
proof -
  have f: "forcesLoop (isAllowOverlap s) (worldBounds s) (nodes s) (nodes s) (heap s) b =
          (if b \<in> set (nodes s)
           then applyBoundary (worldBounds s)
                  (if isAllowOverlap s then heap s b else applyRepulsion (nodes s) b (heap s) b)
           else heap s b)" for b
    using assms by (intro forcesLoop_spec) simp_all
  have h: "heap (drawNodes s) a =
          (if a \<in> set (nodes s)
           then update (applyBoundary (worldBounds s)
                  (if isAllowOverlap s then heap s a else applyRepulsion (nodes s) a (heap s) a))
           else heap s a)"
    using assms by (simp add: drawNodes_def updateLoop_spec f)
  have parts: "vx (applyRepulsion (nodes s) a (heap s) a) =
            constrain (vx (heap s a) + fst (repulsionLoop (heap s) a (nodes s) (0, 0))) (- 5) 5
       \<and> vy (applyRepulsion (nodes s) a (heap s) a) =
            constrain (vy (heap s a) + snd (repulsionLoop (heap s) a (nodes s) (0, 0))) (- 5) 5
       \<and> vx (update n) = (vx n + (tx n - node_x n) * speed n) * friction n
       \<and> vy (update n) = (vy n + (ty n - node_y n) * speed n) * friction n
       \<and> node_x (update n) = node_x n + vx (update n)
       \<and> node_y (update n) = node_y n + vy (update n)"
    by (simp add: applyRepulsion_eq update_eq)
  have whole: "a \<in> set (nodes s) \<Longrightarrow>
            vx (heap (drawNodes s) a) =
              ((if isAllowOverlap s then vx (heap s a)
                else constrain (vx (heap s a) + fst (repulsionLoop (heap s) a (nodes s) (0, 0))) (- 5) 5)
               + (if node_x (heap s a) - node_r (heap s a) < wb_left (worldBounds s)
                  then (wb_left (worldBounds s) - node_x (heap s a) + node_r (heap s a)) * 0.1 else 0)
               - (if node_x (heap s a) + node_r (heap s a) > wb_right (worldBounds s)
                  then (node_x (heap s a) + node_r (heap s a) - wb_right (worldBounds s)) * 0.1 else 0)
               + (tx (heap s a) - node_x (heap s a)) * speed (heap s a))
              * friction (heap s a)
            \<and> vy (heap (drawNodes s) a) =
              ((if isAllowOverlap s then vy (heap s a)
                else constrain (vy (heap s a) + snd (repulsionLoop (heap s) a (nodes s) (0, 0))) (- 5) 5)
               + (if node_y (heap s a) - node_r (heap s a) < wb_top (worldBounds s)
                  then (wb_top (worldBounds s) - node_y (heap s a) + node_r (heap s a)) * 0.1 else 0)
               - (if node_y (heap s a) + node_r (heap s a) > wb_bottom (worldBounds s)
                  then (node_y (heap s a) + node_r (heap s a) - wb_bottom (worldBounds s)) * 0.1 else 0)
               + (ty (heap s a) - node_y (heap s a)) * speed (heap s a))
              * friction (heap s a)
            \<and> node_x (heap (drawNodes s) a) = node_x (heap s a) + vx (heap (drawNodes s) a)
            \<and> node_y (heap (drawNodes s) a) = node_y (heap s a) + vy (heap (drawNodes s) a)"
    by (cases "isAllowOverlap s") (simp_all add: h update_eq applyBoundary_eq applyRepulsion_eq)
  have inside: "a \<in> set (nodes s) \<longrightarrow>
            heap (drawNodes s) a =
              update (applyBoundary (worldBounds s)
                (if isAllowOverlap s then heap s a else applyRepulsion (nodes s) a (heap s) a))"
    and outside: "a \<notin> set (nodes s) \<longrightarrow> heap (drawNodes s) a = heap s a"
    using h by simp_all
  note p1 = parts [THEN conjunct1]
    and p2 = parts [THEN conjunct2, THEN conjunct1]
    and p3 = parts [THEN conjunct2, THEN conjunct2, THEN conjunct1]
    and p4 = parts [THEN conjunct2, THEN conjunct2, THEN conjunct2, THEN conjunct1]
    and p5 = parts [THEN conjunct2, THEN conjunct2, THEN conjunct2, THEN conjunct2, THEN conjunct1]
    and p6 = parts [THEN conjunct2, THEN conjunct2, THEN conjunct2, THEN conjunct2, THEN conjunct2]
  show ?thesis
    by (intro conjI) (rule inside outside p1 p2 p3 p4 p5 p6 applyBoundary_eq impI [OF whole])+
qed

lemma sqrt_100: "sqrt 100 = 10"
  using real_sqrt_abs [of 10] by simp

text \<open>C1, as the code has it, on two overlapping nodes at rest 10 apart: the repulsion of 15
  is clamped to 5 at once and the friction of 0.8 then makes it 4, where friction before
  the clamp would have left 5. And on a node 100 left of the left bound moving at 9: the
  velocity is clamped to 5, the boundary push of 12 is added to the clamped velocity, and
  the friction leaves 13.6, unclamped, which is added to the position.\<close>

theorem drawNodes_per_node_witness:
  "distinct (nodes overlapScene)
   \<and> vx (heap (drawNodes overlapScene) 0) = - 4
   \<and> node_x (heap (drawNodes overlapScene) 0) = - 4
   \<and> vx (heap (drawNodes overlapScene) 1) = 4
   \<and> node_x (heap (drawNodes overlapScene) 1) = 14
   \<and> distinct (nodes boundaryScene)
   \<and> vx (heap boundaryScene 0) = 9
   \<and> node_x (heap boundaryScene 0) = - 100
   \<and> vx (applyBoundary (worldBounds boundaryScene) (heap boundaryScene 0)) = 21
   \<and> vx (heap (drawNodes boundaryScene) 0) = 13.6
   \<and> node_x (heap (drawNodes boundaryScene) 0) = - 86.4
   \<and> vy (heap (drawNodes boundaryScene) 0) = 0"
proof -
  have d: "distinct (nodes overlapScene)"
    by (simp add: scene_defs)
  have d': "distinct (nodes boundaryScene)"
    by (simp add: scene_defs)
  have overlap: "vx (heap (drawNodes overlapScene) 0) = - 4
      \<and> node_x (heap (drawNodes overlapScene) 0) = - 4
      \<and> vx (heap (drawNodes overlapScene) 1) = 4
      \<and> node_x (heap (drawNodes overlapScene) 1) = 14"
    using drawNodes_per_node [OF d, of 0 "heap overlapScene 0"]
      drawNodes_per_node [OF d, of 1 "heap overlapScene 1"]
    by (simp add: scene_defs Node_def applyRepulsion_def applyBoundary_def update_def
        constrain_def Let_def sqrt_100)
  have bound: "vx (heap boundaryScene 0) = 9
      \<and> node_x (heap boundaryScene 0) = - 100
      \<and> vx (applyBoundary (worldBounds boundaryScene) (heap boundaryScene 0)) = 21
      \<and> vx (heap (drawNodes boundaryScene) 0) = 13.6
      \<and> node_x (heap (drawNodes boundaryScene) 0) = - 86.4
      \<and> vy (heap (drawNodes boundaryScene) 0) = 0"
    using drawNodes_per_node [OF d', of 0 "heap boundaryScene 0" "worldBounds boundaryScene"
        "heap boundaryScene 0"]
    by (simp add: scene_defs Node_def applyRepulsion_def applyBoundary_def update_def
        constrain_def Let_def)
  from d d' overlap bound show ?thesis
    by simp
qed

text \<open>C1 as the claim states it fails: a node at rest whose drag target is 1000 away leaves
  the frame with velocity 80 on the x axis, outside \<open>[-5, 5]\<close>, and has moved by 80.\<close>

theorem drawNodes_velocity_unclamped:
  "vx (heap (drawNodes dragScene) 0) = 80
   \<and> \<not> (- 5 \<le> vx (heap (drawNodes dragScene) 0) \<and> vx (heap (drawNodes dragScene) 0) \<le> 5)
   \<and> node_x (heap dragScene 0) = 0
   \<and> node_x (heap (drawNodes dragScene) 0) = 80"
  by (simp add: drawNodes_def scene_defs Node_def applyRepulsion_def applyBoundary_def
      update_def constrain_def Let_def)

subsection \<open>Loading a document that parses and is not a graph\<close>

text \<open>A file of another type, and a file whose text does not parse, leave everything but the
  toasts as it was.\<close>

lemma handleFileLoad_wrong_type:
  "ftype f \<noteq> ''application'' \<or> subtype f \<noteq> ''json'' \<Longrightarrow>
     handleFileLoad f s = Returns (createToast InvalidFileType s)"
  by (auto simp: handleFileLoad_def)

lemma handleFileLoad_unparseable:
  "ftype f = ''application'' \<Longrightarrow> subtype f = ''json'' \<Longrightarrow> parsed f = None \<Longrightarrow>
     handleFileLoad f s = Returns (createToast CouldNotParse s)"
  by (simp add: handleFileLoad_def)

text \<open>A document of the saved shape replaces the scene by new node objects, drops the edge
  whose endpoint id is unknown, resets the camera and leaves one snapshot in the history.\<close>

lemma nodeDataOf_nodeJson:
  "nodeDataOf (nodeJson px py (of_int i) l) =
     Some \<lparr>d_x = px, d_y = py, d_id = i, d_label = l, d_speed = 0.1, d_friction = 0.8,
           d_tx = px, d_ty = py\<rparr>"
  by (simp add: nodeDataOf_def nodeJson_def persistedKeys_def numProp_def strProp_def getProp_def
      intOfNum_def)

lemma handleFileLoad_pairDocument:
  "(case handleFileLoad pairDocument (pathScene\<lparr>zoom := 3\<rparr>) of
      Returns s1 \<Rightarrow>
        nodes s1 = [3, 4] \<and> edges s1 = [(3, 4)] \<and> zoom s1 = 1
        \<and> map node_id (map (heap s1) (nodes s1)) = [1, 2]
        \<and> length (undoStack s1) = 1 \<and> hoveredNode s1 = None
        \<and> map message (toasts s1) = [LoadedSuccessfully]
    | Throws s1 \<Rightarrow> False
    | Unmodelled \<Rightarrow> False)"
  using nodeDataOf_nodeJson [of 100 100 1 "''a''"] nodeDataOf_nodeJson [of 200 100 2 "''b''"]
  by (simp add: handleFileLoad_def restoreFromJson_def getProp_def
      nodeEntries_def edgeEntries_def edgeEntry_def idOfJson_def nthOpt_def intOfNum_def
      restoreEdges_def findNode_def List.map_filter_def assignData_def Node_def
      clearTransient_def createToast_def home_def Let_def scene_defs nodeJson_def)

text \<open>
  C2 fails on the code: on the path scene, loading the document \<open>{"nodes": []}\<close> reports
  "Error: Could not parse the JSON file." after \<open>restoreFromSnapshot\<close> has emptied the node
  array and cleared the hover, and the two edges still refer to the node objects that
  are gone from the array.
\<close>

theorem handleFileLoad_invalid_document_mutates:
  "nodes pathScene = [0, 1, 2]
   \<and> hoveredNode pathScene = Some 0
   \<and> (case handleFileLoad nodesOnlyDocument pathScene of
         Returns s1 \<Rightarrow>
           nodes s1 = [] \<and> edges s1 = [(0, 1), (1, 2)] \<and> hoveredNode s1 = None
           \<and> map message (toasts s1) = [CouldNotParse]
       | Throws s1 \<Rightarrow> False
       | Unmodelled \<Rightarrow> False)"
  by (simp add: handleFileLoad_def restoreFromJson_def getProp_def nodeEntries_def
      clearTransient_def createToast_def Let_def scene_defs)

end
